theory Spec2Isabelle
  imports Complex_Main
begin

section \<open>Hyper-parameters of the notebook\<close>

text \<open>
  The notebook \<^verbatim>\<open>VGGNet.ipynb\<close> computes with Python and numpy floating-point numbers.
  They are embedded as exact real numbers: a decimal literal such as \<^verbatim>\<open>0.1\<close> is the
  real number one tenth, and the rounding of binary floating point is not part of the model.
  Python integers are \<^typ>\<open>int\<close> or, where the source only counts, \<^typ>\<open>nat\<close>.
\<close>

definition input_shape :: "nat \<times> nat \<times> nat" where
  "input_shape = (32, 32, 3)"

definition num_classes :: nat where
  \<comment> \<open>\<^verbatim>\<open>classes = 10\<close> in the hyper-parameter cell; the export cell rebinds the name
      \<^verbatim>\<open>classes\<close> to the label list, which keeps the name here.\<close>
  "num_classes = 10"

definition weight_decay :: real where
  "weight_decay = 0.0005"

definition learning_rate :: real where
  "learning_rate = 0.1"

definition lr_decay :: real where
  "lr_decay = 1 / 10 ^ 6"

definition lr_drop :: int where
  "lr_drop = 20"

definition batch_size :: nat where
  "batch_size = 128"

definition epochs :: nat where
  "epochs = 250"

section \<open>The stepped learning-rate schedule\<close>

text \<open>
  \<^verbatim>\<open>def lr_scheduler(epoch): return learning_rate * (0.5 ** (epoch // lr_drop))\<close>

  Python's \<^verbatim>\<open>//\<close> on integers is floor division, which is \<open>div\<close> on \<^typ>\<open>int\<close>;
  \<^verbatim>\<open>**\<close> with an integer exponent of either sign is \<open>powi\<close>.
\<close>

definition lr_scheduler :: "int \<Rightarrow> real" where
  "lr_scheduler epoch = learning_rate * (0.5 powi (epoch div lr_drop))"

section \<open>The network definition\<close>

datatype activation = relu | softmax

datatype padding = same | valid

datatype regularizer = l2 real

datatype layer =
    Conv2D nat "nat \<times> nat" activation padding "regularizer option" string
  | BatchNormalization
  | Dropout real
  | MaxPooling2D "nat \<times> nat" string
  | Flatten string
  | Dense nat activation "regularizer option" string

text \<open>
  The arguments of \<open>Conv2D\<close> are \<^verbatim>\<open>filters\<close>, \<^verbatim>\<open>kernel_size\<close>, \<^verbatim>\<open>activation\<close>,
  \<^verbatim>\<open>padding\<close>, \<^verbatim>\<open>kernel_regularizer\<close> (\<open>None\<close> where the call gives none) and
  \<^verbatim>\<open>name\<close>; those of \<open>Dense\<close> are \<^verbatim>\<open>units\<close>, \<^verbatim>\<open>activation\<close>,
  \<^verbatim>\<open>kernel_regularizer\<close> and \<^verbatim>\<open>name\<close>. The \<^verbatim>\<open>input_shape\<close> argument of the first
  layer is the constant \<open>input_shape\<close>. The list is the sequence of \<^verbatim>\<open>model.add\<close> calls.
\<close>

definition model :: "layer list" where
  "model =
   [ \<comment> \<open>Block 1\<close>
     Conv2D 64 (3, 3) relu same (Some (l2 weight_decay)) ''block1_conv1'',
     BatchNormalization,
     Dropout 0.3,
     Conv2D 64 (3, 3) relu same None ''block1_conv2'',
     BatchNormalization,
     MaxPooling2D (2, 2) ''block1_pool'',
     \<comment> \<open>Block 2\<close>
     Conv2D 128 (3, 3) relu same (Some (l2 weight_decay)) ''block2_conv1'',
     BatchNormalization,
     Dropout 0.4,
     Conv2D 128 (3, 3) relu same (Some (l2 weight_decay)) ''block2_conv2'',
     BatchNormalization,
     MaxPooling2D (2, 2) ''block2_pool'',
     \<comment> \<open>Block 3\<close>
     Conv2D 256 (3, 3) relu same (Some (l2 weight_decay)) ''block3_conv1'',
     BatchNormalization,
     Dropout 0.4,
     Conv2D 256 (3, 3) relu same (Some (l2 weight_decay)) ''block3_conv2'',
     BatchNormalization,
     Dropout 0.4,
     Conv2D 256 (3, 3) relu same (Some (l2 weight_decay)) ''block3_conv3'',
     BatchNormalization,
     MaxPooling2D (2, 2) ''block3_pool'',
     \<comment> \<open>Block 4\<close>
     Conv2D 512 (3, 3) relu same (Some (l2 weight_decay)) ''block4_conv1'',
     BatchNormalization,
     Dropout 0.4,
     Conv2D 512 (3, 3) relu same (Some (l2 weight_decay)) ''block4_conv2'',
     BatchNormalization,
     Dropout 0.4,
     Conv2D 512 (3, 3) relu same (Some (l2 weight_decay)) ''block4_conv3'',
     BatchNormalization,
     MaxPooling2D (2, 2) ''block4_pool'',
     \<comment> \<open>Block 5\<close>
     Conv2D 512 (3, 3) relu same (Some (l2 weight_decay)) ''block5_conv1'',
     BatchNormalization,
     Dropout 0.4,
     Conv2D 512 (3, 3) relu same (Some (l2 weight_decay)) ''block5_conv2'',
     BatchNormalization,
     Dropout 0.4,
     Conv2D 512 (3, 3) relu same (Some (l2 weight_decay)) ''block5_conv3'',
     BatchNormalization,
     MaxPooling2D (2, 2) ''block5_pool'',
     Dropout 0.5,
     Flatten ''flatten'',
     Dense 512 relu (Some (l2 weight_decay)) ''fc1'',
     BatchNormalization,
     Dropout 0.5,
     Dense num_classes softmax None ''predictions'' ]"

subsection \<open>Output shapes\<close>

text \<open>
  A shape is the list of dimensions, the batch dimension first. The length of a convolved
  or pooled axis is Keras's \<^verbatim>\<open>conv_output_length\<close>: with \<^verbatim>\<open>same\<close> padding the input
  length, with \<^verbatim>\<open>valid\<close> padding \<^verbatim>\<open>input_length - filter_size + 1\<close>, then
  \<^verbatim>\<open>(length + stride - 1) // stride\<close>. A convolution has stride 1; a pooling layer given
  no \<^verbatim>\<open>strides\<close> takes its pool size as stride and pads \<^verbatim>\<open>valid\<close>. A layer applied to a
  shape of the wrong rank raises an error, which is \<open>None\<close>.
\<close>

definition conv_output_length :: "nat \<Rightarrow> nat \<Rightarrow> padding \<Rightarrow> nat \<Rightarrow> nat" where
  "conv_output_length input_length filter_size pad stride =
     (let output_length =
            (case pad of
               same \<Rightarrow> int input_length
             | valid \<Rightarrow> int input_length - int filter_size + 1)
      in nat ((output_length + int stride - 1) div int stride))"

fun compute_output_shape :: "layer \<Rightarrow> nat list \<Rightarrow> nat list option" where
  "compute_output_shape (Conv2D filters (kh, kw) act pad reg name) [b, h, w, c] =
     Some [b, conv_output_length h kh pad 1, conv_output_length w kw pad 1, filters]"
| "compute_output_shape (Conv2D filters ks act pad reg name) shp = None"
| "compute_output_shape BatchNormalization shp = Some shp"
| "compute_output_shape (Dropout rate) shp = Some shp"
| "compute_output_shape (MaxPooling2D (ph, pw) name) [b, h, w, c] =
     Some [b, conv_output_length h ph valid ph, conv_output_length w pw valid pw, c]"
| "compute_output_shape (MaxPooling2D ps name) shp = None"
| "compute_output_shape (Flatten name) [] = None"
| "compute_output_shape (Flatten name) (b # dims) = Some [b, prod_list dims]"
| "compute_output_shape (Dense units act reg name) [b, d] = Some [b, units]"
| "compute_output_shape (Dense units act reg name) shp = None"

text \<open>The shapes after each layer of a sequential stack, in order.\<close>

fun output_shapes :: "layer list \<Rightarrow> nat list \<Rightarrow> nat list list option" where
  "output_shapes [] shp = Some []"
| "output_shapes (l # ls) shp =
     (case compute_output_shape l shp of
        None \<Rightarrow> None
      | Some shp' \<Rightarrow>
          (case output_shapes ls shp' of
             None \<Rightarrow> None
           | Some rest \<Rightarrow> Some (shp' # rest)))"

definition model_input :: "nat \<Rightarrow> nat list" where
  "model_input b = (case input_shape of (h, w, c) \<Rightarrow> [b, h, w, c])"

text \<open>The output shapes of the layers of a stack that satisfy a predicate, in order.\<close>

fun is_pool :: "layer \<Rightarrow> bool" where
  "is_pool (MaxPooling2D ps name) = True"
| "is_pool l = False"

fun is_flatten :: "layer \<Rightarrow> bool" where
  "is_flatten (Flatten name) = True"
| "is_flatten l = False"

definition shapes_after :: "(layer \<Rightarrow> bool) \<Rightarrow> layer list \<Rightarrow> nat list \<Rightarrow> nat list list option" where
  "shapes_after P ls shp =
     map_option (\<lambda>shps. map snd (filter (\<lambda>(l, s). P l) (zip ls shps))) (output_shapes ls shp)"

subsection \<open>Parameter counts\<close>

text \<open>
  A convolution holds a kernel of \<open>kh * kw * input channels * filters\<close> weights and one
  bias per filter; a dense layer a kernel of \<open>inputs * units\<close> weights and one bias per
  unit; a batch normalisation over the last axis holds four vectors of the width of that
  axis, of which \<^verbatim>\<open>gamma\<close> and \<^verbatim>\<open>beta\<close> are trained and the moving mean and the moving
  variance are not. The other layers hold nothing. The pair is (trainable, non-trainable),
  for the layer applied to the given input shape.
\<close>

fun count_params :: "layer \<Rightarrow> nat list \<Rightarrow> nat \<times> nat" where
  "count_params (Conv2D filters (kh, kw) act pad reg name) shp =
     (kh * kw * last shp * filters + filters, 0)"
| "count_params BatchNormalization shp = (2 * last shp, 2 * last shp)"
| "count_params (Dense units act reg name) shp = (last shp * units + units, 0)"
| "count_params l shp = (0, 0)"

fun layer_params :: "layer list \<Rightarrow> nat list \<Rightarrow> (nat \<times> nat) list option" where
  "layer_params [] shp = Some []"
| "layer_params (l # ls) shp =
     (case compute_output_shape l shp of
        None \<Rightarrow> None
      | Some shp' \<Rightarrow>
          (case layer_params ls shp' of
             None \<Rightarrow> None
           | Some rest \<Rightarrow> Some (count_params l shp # rest)))"

definition trainable_params :: "layer list \<Rightarrow> nat list \<Rightarrow> nat option" where
  "trainable_params ls shp = map_option (\<lambda>ps. sum_list (map fst ps)) (layer_params ls shp)"

definition non_trainable_params :: "layer list \<Rightarrow> nat list \<Rightarrow> nat option" where
  "non_trainable_params ls shp = map_option (\<lambda>ps. sum_list (map snd ps)) (layer_params ls shp)"

definition total_params :: "layer list \<Rightarrow> nat list \<Rightarrow> nat option" where
  "total_params ls shp =
     map_option (\<lambda>ps. sum_list (map (\<lambda>(t, n). t + n) ps)) (layer_params ls shp)"

text \<open>
  The table printed by \<^verbatim>\<open>model.summary()\<close> in the notebook: the output shape of each
  layer without its batch dimension, and its parameter count.
\<close>

definition summary :: "(nat list \<times> nat) list" where
  "summary =
   [ ([32, 32, 64], 1792), ([32, 32, 64], 256), ([32, 32, 64], 0),
     ([32, 32, 64], 36928), ([32, 32, 64], 256), ([16, 16, 64], 0),
     ([16, 16, 128], 73856), ([16, 16, 128], 512), ([16, 16, 128], 0),
     ([16, 16, 128], 147584), ([16, 16, 128], 512), ([8, 8, 128], 0),
     ([8, 8, 256], 295168), ([8, 8, 256], 1024), ([8, 8, 256], 0),
     ([8, 8, 256], 590080), ([8, 8, 256], 1024), ([8, 8, 256], 0),
     ([8, 8, 256], 590080), ([8, 8, 256], 1024), ([4, 4, 256], 0),
     ([4, 4, 512], 1180160), ([4, 4, 512], 2048), ([4, 4, 512], 0),
     ([4, 4, 512], 2359808), ([4, 4, 512], 2048), ([4, 4, 512], 0),
     ([4, 4, 512], 2359808), ([4, 4, 512], 2048), ([2, 2, 512], 0),
     ([2, 2, 512], 2359808), ([2, 2, 512], 2048), ([2, 2, 512], 0),
     ([2, 2, 512], 2359808), ([2, 2, 512], 2048), ([2, 2, 512], 0),
     ([2, 2, 512], 2359808), ([2, 2, 512], 2048), ([1, 1, 512], 0),
     ([1, 1, 512], 0), ([512], 0),
     ([512], 262656), ([512], 2048), ([512], 0),
     ([10], 5130) ]"

subsection \<open>The activation of a dense layer\<close>

text \<open>
  Keras's \<^verbatim>\<open>relu\<close> is \<open>max(x, 0)\<close> elementwise; its \<^verbatim>\<open>softmax\<close> over the last axis
  divides the exponential of each component by the sum of the exponentials. A dense layer
  returns \<^verbatim>\<open>activation(dot(input, kernel) + bias)\<close>; the kernel is given here by its
  columns, one per unit.
\<close>

fun apply_activation :: "activation \<Rightarrow> real list \<Rightarrow> real list" where
  "apply_activation relu z = map (\<lambda>x. max x 0) z"
| "apply_activation softmax z = map (\<lambda>x. exp x / sum_list (map exp z)) z"

definition dense_call :: "real list list \<Rightarrow> real list \<Rightarrow> activation \<Rightarrow> real list \<Rightarrow> real list" where
  "dense_call kernel_cols bias act x =
     apply_activation act (map2 (+) (map (\<lambda>col. sum_list (map2 (*) x col)) kernel_cols) bias)"

subsection \<open>Blocks of the layer sequence\<close>

text \<open>
  A convolutional block is a maximal run of layers closed by its \<open>MaxPooling2D\<close> layer, as
  the comments \<^verbatim>\<open># Block 1\<close> to \<^verbatim>\<open># Block 5\<close> and the layer names delimit them. The
  layers after the last pooling layer are the classifier and belong to no block.
\<close>

fun split_blocks :: "layer list \<Rightarrow> layer list \<Rightarrow> layer list list" where
  "split_blocks cur [] = []"
| "split_blocks cur (MaxPooling2D ps name # ls) =
     (cur @ [MaxPooling2D ps name]) # split_blocks [] ls"
| "split_blocks cur (l # ls) = split_blocks (cur @ [l]) ls"

definition conv_blocks :: "layer list \<Rightarrow> layer list list" where
  "conv_blocks ls = split_blocks [] ls"

text \<open>The kernel regularizer of each convolution of a layer list, in order.\<close>

fun conv_regularizers :: "layer list \<Rightarrow> regularizer option list" where
  "conv_regularizers [] = []"
| "conv_regularizers (Conv2D filters ks act pad reg name # ls) = reg # conv_regularizers ls"
| "conv_regularizers (l # ls) = conv_regularizers ls"

text \<open>The padding of each convolution and the pool size of each pooling layer, in order.\<close>

fun conv_paddings :: "layer list \<Rightarrow> padding list" where
  "conv_paddings [] = []"
| "conv_paddings (Conv2D filters ks act pad reg name # ls) = pad # conv_paddings ls"
| "conv_paddings (l # ls) = conv_paddings ls"

fun pool_sizes :: "layer list \<Rightarrow> (nat \<times> nat) list" where
  "pool_sizes [] = []"
| "pool_sizes (MaxPooling2D ps name # ls) = ps # pool_sizes ls"
| "pool_sizes (l # ls) = pool_sizes ls"

text \<open>Whether every convolution is directly followed by a batch normalisation.\<close>

fun bn_after_every_conv :: "layer list \<Rightarrow> bool" where
  "bn_after_every_conv [] = True"
| "bn_after_every_conv (Conv2D filters ks act pad reg name # BatchNormalization # ls) =
     bn_after_every_conv ls"
| "bn_after_every_conv (Conv2D filters ks act pad reg name # ls) = False"
| "bn_after_every_conv (l # ls) = bn_after_every_conv ls"

text \<open>
  For each convolution, in order: the rate of the dropout layer that directly follows the
  convolution and its batch normalisation, or \<open>None\<close> where no dropout follows them.
\<close>

fun conv_dropouts :: "layer list \<Rightarrow> real option list" where
  "conv_dropouts [] = []"
| "conv_dropouts (Conv2D filters ks act pad reg name # BatchNormalization # Dropout rate # ls) =
     Some rate # conv_dropouts ls"
| "conv_dropouts (Conv2D filters ks act pad reg name # ls) = None # conv_dropouts ls"
| "conv_dropouts (l # ls) = conv_dropouts ls"

text \<open>
  The pattern ``L2 weight decay with coefficient 5e-4 on the first convolution only'', for
  one block.
\<close>

definition l2_first_conv_only :: "layer list \<Rightarrow> bool" where
  "l2_first_conv_only blk =
     (case conv_regularizers blk of
        [] \<Rightarrow> False
      | r # rs \<Rightarrow> r = Some (l2 (5 / 10 ^ 4)) \<and> rs = replicate (length rs) None)"

section \<open>Preprocessing\<close>

text \<open>
  An image set is a numpy array with the four axes samples, height, width and channels: a
  list of images, each a list of rows, each a list of pixels, each a list of channel
  values.

  \<^verbatim>\<open>np.mean(X, axis=(0,1,2,3))\<close> is the sum of all components divided by their number,
  and \<^verbatim>\<open>np.std(X, axis=(0,1,2,3))\<close> the square root of the mean of the squared
  deviations from that mean. On an array without components numpy divides zero by zero
  and returns \<^verbatim>\<open>nan\<close>; \<open>None\<close> stands for \<^verbatim>\<open>nan\<close>. Subtracting a scalar from an array and
  dividing an array by a scalar are elementwise.
\<close>

type_synonym tensor4 = "real list list list list"

definition flat :: "tensor4 \<Rightarrow> real list" where
  "flat X = concat (concat (concat X))"

definition map4 :: "(real \<Rightarrow> real) \<Rightarrow> tensor4 \<Rightarrow> tensor4" where
  "map4 f X = map (map (map (map f))) X"

definition np_mean :: "tensor4 \<Rightarrow> real option" where
  "np_mean X =
     (let xs = flat X
      in if xs = [] then None else Some (sum_list xs / real (length xs)))"

definition np_std :: "tensor4 \<Rightarrow> real option" where
  "np_std X =
     (let xs = flat X
      in case np_mean X of
           None \<Rightarrow> None
         | Some arrmean \<Rightarrow>
             Some (sqrt (sum_list (map (\<lambda>x. (x - arrmean) * (x - arrmean)) xs)
                         / real (length xs))))"

text \<open>
  \<^verbatim>\<open>
  def normalize(X_train,X_test):
      mean = np.mean(X_train,axis=(0,1,2,3))
      std = np.std(X_train, axis=(0,1,2,3))
      X_train = (X_train-mean)/(std+1e-7)
      X_test = (X_test-mean)/(std+1e-7)
      return X_train, X_test
  \<close>
  The function keeps its name with the suffix \<open>_np\<close>, as \<open>normalize\<close> is a constant of
  the library. The result is \<open>None\<close> when the statistics are \<^verbatim>\<open>nan\<close>, that is when every component
  computed from them is \<^verbatim>\<open>nan\<close>.
\<close>

definition normalize_np :: "tensor4 \<Rightarrow> tensor4 \<Rightarrow> (tensor4 \<times> tensor4) option" where
  "normalize_np X_train X_test =
     (case np_mean X_train of
        None \<Rightarrow> None
      | Some mean \<Rightarrow>
          (case np_std X_train of
             None \<Rightarrow> None
           | Some std \<Rightarrow>
               Some (map4 (\<lambda>x. (x - mean) / (std + 1 / 10 ^ 7)) X_train,
                     map4 (\<lambda>x. (x - mean) / (std + 1 / 10 ^ 7)) X_test)))"

text \<open>
  A numpy array is rectangular: \<open>has_shape X n h w c\<close> says that \<open>X\<close> has the shape
  \<open>(n, h, w, c)\<close>.
\<close>

definition has_shape :: "tensor4 \<Rightarrow> nat \<Rightarrow> nat \<Rightarrow> nat \<Rightarrow> nat \<Rightarrow> bool" where
  "has_shape X n h w c =
     (length X = n \<and>
      list_all (\<lambda>img. length img = h \<and>
        list_all (\<lambda>row. length row = w \<and>
          list_all (\<lambda>px. length px = c) row) img) X)"

text \<open>Whether four indices address a component of an array.\<close>

definition in_bounds :: "tensor4 \<Rightarrow> nat \<Rightarrow> nat \<Rightarrow> nat \<Rightarrow> nat \<Rightarrow> bool" where
  "in_bounds X i j k c =
     (i < length X \<and> j < length (X ! i) \<and> k < length (X ! i ! j) \<and> c < length (X ! i ! j ! k))"

section \<open>Augmentation and the training loop\<close>

text \<open>
  The records hold the arguments that the notebook passes; every argument it does not
  pass keeps the default of the library.
\<close>

record ImageDataGenerator =
  rotation_range :: real
  width_shift_range :: real
  height_shift_range :: real
  horizontal_flip :: bool

definition train_datagen :: ImageDataGenerator where
  "train_datagen =
     \<lparr> rotation_range = 15, width_shift_range = 0.1, height_shift_range = 0.1,
       horizontal_flip = True \<rparr>"

record SGD =
  lr :: real
  decay :: real
  momentum :: real
  nesterov :: bool

definition sgd :: SGD where
  "sgd = \<lparr> lr = learning_rate, decay = lr_decay, momentum = 0.9, nesterov = True \<rparr>"

record compile_args =
  optimizer :: SGD
  loss :: string
  metrics :: "string list"

definition compile_call :: compile_args where
  "compile_call =
     \<lparr> optimizer = sgd, loss = ''categorical_crossentropy'', metrics = [''accuracy''] \<rparr>"

text \<open>
  The two splits, \<^verbatim>\<open>(x_train, y_train)\<close> and \<^verbatim>\<open>(x_test, y_test)\<close>, and the two ways the
  notebook hands data to \<^verbatim>\<open>fit_generator\<close>: through \<^verbatim>\<open>datagen.flow(x, y, batch_size)\<close>,
  or as the pair of arrays itself.
\<close>

datatype dataset = train_split | test_split

datatype data_source =
    flow ImageDataGenerator dataset nat
  | arrays dataset

record fit_generator_args =
  generator :: data_source
  steps_per_epoch :: int
  fit_epochs :: nat
  validation_data :: data_source
  callbacks :: "(int \<Rightarrow> real) list"

text \<open>
  \<^verbatim>\<open>
  model.fit_generator(train_datagen.flow(x_train, y_train, batch_size=batch_size),
                      steps_per_epoch=len(x_train) // batch_size, epochs=epochs,
                      validation_data=(x_test, y_test),callbacks=[reduce_lr])
  \<close>
  with \<^verbatim>\<open>reduce_lr = keras.callbacks.LearningRateScheduler(lr_scheduler)\<close>; the argument is
  \<^verbatim>\<open>len(x_train)\<close>.
\<close>

definition fit_generator_call :: "nat \<Rightarrow> fit_generator_args" where
  "fit_generator_call len_x_train =
     \<lparr> generator = flow train_datagen train_split batch_size,
       steps_per_epoch = int len_x_train div int batch_size,
       fit_epochs = epochs,
       validation_data = arrays test_split,
       callbacks = [lr_scheduler] \<rparr>"

definition x_train_shape :: "nat list" where
  \<comment> \<open>printed by the notebook: \<^verbatim>\<open>x_train shape: (50000, 32, 32, 3)\<close>\<close>
  "x_train_shape = [50000, 32, 32, 3]"

text \<open>
  Keras's \<^verbatim>\<open>ImageDataGenerator.random_transform\<close> draws a rotation only
  \<^verbatim>\<open>if self.rotation_range\<close>, a vertical shift only \<^verbatim>\<open>if self.height_shift_range\<close>, a
  horizontal shift only \<^verbatim>\<open>if self.width_shift_range\<close>, and flips only
  \<^verbatim>\<open>if self.horizontal_flip\<close>; a Python number is true when it is not zero. A generator
  perturbs its images when one of these is on. The batches of \<^verbatim>\<open>datagen.flow\<close> pass
  through \<^verbatim>\<open>random_transform\<close>; a pair of arrays passes through no generator.
\<close>

definition applies_random_transform :: "ImageDataGenerator \<Rightarrow> bool" where
  "applies_random_transform datagen =
     (rotation_range datagen \<noteq> 0 \<or> height_shift_range datagen \<noteq> 0 \<or>
      width_shift_range datagen \<noteq> 0 \<or> horizontal_flip datagen)"

fun augmented :: "data_source \<Rightarrow> bool" where
  "augmented (flow datagen s b) = applies_random_transform datagen"
| "augmented (arrays s) = False"

subsection \<open>The loop of \<^verbatim>\<open>fit_generator\<close>\<close>

text \<open>
  The loop itself is code of Keras, which the notebook calls; it is embedded here as the
  sequence of the events it performs, after \<^verbatim>\<open>fit_generator\<close> of Keras 2.1:
  \<^verbatim>\<open>
  while epoch < epochs:
      callbacks.on_epoch_begin(epoch)
      steps_done = 0
      while steps_done < steps_per_epoch:
          generator_output = next(output_generator)
          outs = self.train_on_batch(x, y, ...)
          steps_done += 1
          if steps_done >= steps_per_epoch and do_validation:
              val_outs = self.evaluate(val_x, val_y, ...)
      epoch += 1
  \<close>
  \<^verbatim>\<open>LearningRateScheduler.on_epoch_begin(epoch)\<close> sets the learning rate of the optimiser
  to \<^verbatim>\<open>schedule(epoch)\<close>. \<^verbatim>\<open>evaluate\<close> returns the loss and the metrics the model was
  compiled with, which Keras logs as \<^verbatim>\<open>val_loss\<close> and \<^verbatim>\<open>val_acc\<close>; the notebook
  reports both for its last epoch.
\<close>

datatype event =
    set_learning_rate real
  | train_on_batch data_source
  | evaluate data_source "string list"

function run_steps :: "fit_generator_args \<Rightarrow> compile_args \<Rightarrow> int \<Rightarrow> event list" where
  "run_steps args compiled steps_done =
     (if steps_done < steps_per_epoch args
      then train_on_batch (generator args) #
           (if steps_done + 1 \<ge> steps_per_epoch args
            then [evaluate (validation_data args) (loss compiled # metrics compiled)]
            else []) @
           run_steps args compiled (steps_done + 1)
      else [])"
  by pat_completeness auto
termination
  by (relation "measure (\<lambda>(args, compiled, steps_done). nat (steps_per_epoch args - steps_done))") auto

function run_epochs :: "fit_generator_args \<Rightarrow> compile_args \<Rightarrow> nat \<Rightarrow> event list list" where
  "run_epochs args compiled epoch =
     (if epoch < fit_epochs args
      then (map (\<lambda>schedule. set_learning_rate (schedule (int epoch))) (callbacks args) @
            run_steps args compiled 0) #
           run_epochs args compiled (epoch + 1)
      else [])"
  by pat_completeness auto
termination
  by (relation "measure (\<lambda>(args, compiled, epoch). fit_epochs args - epoch)") auto

text \<open>The events of a training run, epoch by epoch.\<close>

definition fit_generator :: "fit_generator_args \<Rightarrow> compile_args \<Rightarrow> event list list" where
  "fit_generator args compiled = run_epochs args compiled 0"

section \<open>Export\<close>











section \<open>The learning-rate schedule is stepped\<close>

lemma lr_scheduler_closed_form:
  "0 \<le> epoch \<Longrightarrow> lr_scheduler epoch = (1 / 10) * (1 / 2) ^ (nat epoch div 20)"
  by (simp add: lr_scheduler_def learning_rate_def lr_drop_def power_int_def nat_div_distrib)

lemma div_step:
  assumes "0 \<le> (e::int)"
  shows "nat (e + 1) div 20 = (if (e + 1) mod 20 = 0 then Suc (nat e div 20) else nat e div 20)"
proof -
  obtain n where e: "e = int n"
    using assms by (rule nonneg_int_cases)
  have "(e + 1) mod 20 = int (Suc n mod 20)"
    by (simp add: e zmod_int add.commute)
  then have m: "((e + 1) mod 20 = 0) = (Suc n mod 20 = 0)"
    by simp
  have s: "nat (e + 1) = Suc n" and t: "nat e = n"
    by (simp_all add: e)
  show ?thesis
    unfolding m s t by (rule div_Suc)
qed

lemma lr_scheduler_pos: "0 < lr_scheduler epoch"
  by (simp add: lr_scheduler_def learning_rate_def)

lemma lr_scheduler_step:
  assumes "0 \<le> epoch"
  shows "lr_scheduler (epoch + 1) =
         (if (epoch + 1) mod 20 = 0 then lr_scheduler epoch / 2 else lr_scheduler epoch)"
proof -
  have nonneg: "0 \<le> epoch + 1" using assms by simp
  have next_form: "lr_scheduler (epoch + 1) = (1 / 10) * (1 / 2) ^ (nat (epoch + 1) div 20)"
    by (rule lr_scheduler_closed_form [OF nonneg])
  have this_form: "lr_scheduler epoch = (1 / 10) * (1 / 2) ^ (nat epoch div 20)"
    by (rule lr_scheduler_closed_form [OF assms])
  show ?thesis
  proof (cases "(epoch + 1) mod 20 = 0")
    case True
    then have "nat (epoch + 1) div 20 = Suc (nat epoch div 20)"
      using div_step [OF assms] by simp
    then show ?thesis
      using True by (simp only: next_form this_form if_True power_Suc) simp
  next
    case False
    then have "nat (epoch + 1) div 20 = nat epoch div 20"
      using div_step [OF assms] by simp
    then show ?thesis
      using False by (simp only: next_form this_form if_False)
  qed
qed

text \<open>
  Claim C1. For every epoch counted from 0, the scheduled rate is one tenth times one half
  to the power \<open>epoch // 20\<close>. In particular the rate is 0.1 at epochs 0 and 19, 0.05 at
  epoch 20 and 0.025 at epoch 40, and the rate of an epoch differs from the rate of the
  epoch before it exactly when the epoch is a multiple of 20.
\<close>

theorem lr_scheduler_stepped:
  assumes "0 \<le> epoch"
  shows "lr_scheduler epoch = (1 / 10) * (1 / 2) ^ (nat epoch div 20)
       \<and> lr_scheduler 0 = 1 / 10 \<and> lr_scheduler 19 = 1 / 10
       \<and> lr_scheduler 20 = 1 / 20 \<and> lr_scheduler 40 = 1 / 40
       \<and> ((lr_scheduler (epoch + 1) \<noteq> lr_scheduler epoch) = ((epoch + 1) mod 20 = 0))"
proof -
  have f: "lr_scheduler epoch = (1 / 10) * (1 / 2) ^ (nat epoch div 20)"
    by (rule lr_scheduler_closed_form [OF assms])
  have c0: "lr_scheduler 0 = 1 / 10"
    by (simp add: lr_scheduler_def learning_rate_def lr_drop_def)
  have c19: "lr_scheduler 19 = 1 / 10"
    by (simp add: lr_scheduler_def learning_rate_def lr_drop_def)
  have c20: "lr_scheduler 20 = 1 / 20"
    by (simp add: lr_scheduler_def learning_rate_def lr_drop_def)
  have c40: "lr_scheduler 40 = 1 / 40"
    by (simp add: lr_scheduler_def learning_rate_def lr_drop_def power2_eq_square)
  have p: "0 < lr_scheduler epoch" by (rule lr_scheduler_pos)
  have s: "(lr_scheduler (epoch + 1) \<noteq> lr_scheduler epoch) = ((epoch + 1) mod 20 = 0)"
    using p by (simp add: lr_scheduler_step [OF assms])
  show ?thesis
    by (rule conjI [OF f conjI [OF c0 conjI [OF c19 conjI [OF c20 conjI [OF c40 s]]]]])
qed

theorem lr_scheduler_stepped_witness:
  "(0::int) \<le> 39 \<and> lr_scheduler 39 = 1 / 20 \<and> lr_scheduler 40 \<noteq> lr_scheduler 39"
  using lr_scheduler_stepped [of 39] by simp

section \<open>Normalisation with the statistics of the training set\<close>

lemma nth_map4:
  assumes "in_bounds X i j k c"
  shows "map4 f X ! i ! j ! k ! c = f (X ! i ! j ! k ! c)"
  using assms by (simp add: in_bounds_def map4_def)

lemma shape_map4: "map (map (map length)) (map4 f X) = map (map (map length)) X"
  by (simp add: map4_def comp_def)

lemma np_mean_Some:
  assumes "flat X \<noteq> []"
  shows "np_mean X = Some (sum_list (flat X) / real (length (flat X)))"
  using assms by (simp add: np_mean_def Let_def)

lemma np_std_Some:
  assumes "flat X \<noteq> []"
  shows "np_std X =
         Some (sqrt (sum_list (map (\<lambda>x. (x - sum_list (flat X) / real (length (flat X)))\<^sup>2) (flat X))
                     / real (length (flat X))))"
  using assms by (simp add: np_std_def np_mean_Some Let_def power2_eq_square)

lemma normalize_Some:
  assumes "flat X_train \<noteq> []"
  shows "normalize_np X_train X_test =
    (let xs = flat X_train;
         mean = sum_list xs / real (length xs);
         std = sqrt (sum_list (map (\<lambda>x. (x - mean)\<^sup>2) xs) / real (length xs))
     in Some (map4 (\<lambda>x. (x - mean) / (std + 1 / 10 ^ 7)) X_train,
              map4 (\<lambda>x. (x - mean) / (std + 1 / 10 ^ 7)) X_test))"
  using assms by (simp add: normalize_np_def np_mean_Some np_std_Some Let_def)

lemma normalize_None:
  assumes "flat X_train = []"
  shows "normalize_np X_train X_test = None"
  using assms by (simp add: normalize_np_def np_mean_def)

text \<open>
  Claim C2. For a training set with at least one component and any evaluation set,
  \<open>normalize\<close> returns two arrays of the shapes of its arguments, and every component of
  both equals the original component minus the mean of the training set, divided by the
  standard deviation of the training set plus \<open>1e-7\<close>. The mean is the sum of the
  components of the training set divided by their number, the standard deviation the
  square root of the mean squared deviation from it; neither reads the evaluation set.
\<close>

theorem normalize_elementwise:
  assumes "flat X_train \<noteq> []"
  shows "let xs = flat X_train;
             mean = sum_list xs / real (length xs);
             std = sqrt (sum_list (map (\<lambda>x. (x - mean)\<^sup>2) xs) / real (length xs))
         in \<exists>X_train' X_test'.
              normalize_np X_train X_test = Some (X_train', X_test')
            \<and> map (map (map length)) X_train' = map (map (map length)) X_train
            \<and> map (map (map length)) X_test' = map (map (map length)) X_test
            \<and> (\<forall>i j k c. in_bounds X_train i j k c \<longrightarrow>
                  X_train' ! i ! j ! k ! c = (X_train ! i ! j ! k ! c - mean) / (std + 1 / 10 ^ 7))
            \<and> (\<forall>i j k c. in_bounds X_test i j k c \<longrightarrow>
                  X_test' ! i ! j ! k ! c = (X_test ! i ! j ! k ! c - mean) / (std + 1 / 10 ^ 7))"
  unfolding normalize_Some [OF assms] Let_def
  by (simp add: shape_map4 nth_map4)

theorem normalize_elementwise_witness:
  "flat [[[[1, 3]]]] \<noteq> []
   \<and> (\<exists>X_train' X_test'. normalize_np [[[[1, 3]]]] [[[[2]]]] = Some (X_train', X_test')
        \<and> X_train' ! 0 ! 0 ! 0 ! 1 = 1 / (1 + 1 / 10 ^ 7)
        \<and> X_test' ! 0 ! 0 ! 0 ! 0 = 0)"
proof -
  have ne: "flat [[[[1, 3]]]] \<noteq> []" by (simp add: flat_def)
  have b1: "in_bounds [[[[1, 3]]]] 0 0 0 1" by (simp add: in_bounds_def)
  have b2: "in_bounds [[[[2]]]] 0 0 0 0" by (simp add: in_bounds_def)
  have fl: "flat [[[[1, 3]]]] = [1, 3]" by (simp add: flat_def)
  from normalize_elementwise [OF ne, of "[[[[2]]]]"]
  obtain A B where n: "normalize_np [[[[1, 3]]]] [[[[2]]]] = Some (A, B)"
    and tr: "\<And>i j k c. in_bounds [[[[1, 3]]]] i j k c \<Longrightarrow>
               A ! i ! j ! k ! c = ([[[[1, 3]]]] ! i ! j ! k ! c - 2) / (1 + 1 / 10 ^ 7)"
    and te: "\<And>i j k c. in_bounds [[[[2]]]] i j k c \<Longrightarrow>
               B ! i ! j ! k ! c = ([[[[2]]]] ! i ! j ! k ! c - 2) / (1 + 1 / 10 ^ 7)"
    unfolding Let_def fl by (simp add: power2_eq_square) blast
  have "A ! 0 ! 0 ! 0 ! 1 = 1 / (1 + 1 / 10 ^ 7)"
    using tr [OF b1] by simp
  moreover have "B ! 0 ! 0 ! 0 ! 0 = 0"
    using te [OF b2] by simp
  ultimately show ?thesis
    using n ne by blast
qed

text \<open>
  Claim C3. The transform that \<open>normalize\<close> applies is fixed by the training set alone: for
  every training set there is one mean and one standard deviation such that, whatever the
  evaluation set, the result is that one affine transform applied to both sets (or
  \<^verbatim>\<open>nan\<close> throughout when the training set has no component). Two runs with the same
  training set and different evaluation sets therefore use the same statistics and return
  the same training array. \<open>normalize\<close> reads no state and draws no random number: it is a
  function of its two arguments, so equal inputs give equal outputs.
\<close>

theorem normalize_no_leakage:
  "(\<exists>mean std. \<forall>X_test.
      normalize_np X_train X_test =
        (if flat X_train = [] then None
         else Some (map4 (\<lambda>x. (x - mean) / (std + 1 / 10 ^ 7)) X_train,
                    map4 (\<lambda>x. (x - mean) / (std + 1 / 10 ^ 7)) X_test)))
   \<and> map_option fst (normalize_np X_train X_test1) = map_option fst (normalize_np X_train X_test2)"
proof (cases "flat X_train = []")
  case True
  then show ?thesis by (simp add: normalize_None)
next
  case False
  show ?thesis
    unfolding normalize_Some [OF False] Let_def using False by auto
qed

subsection \<open>The statistics are scalars over all four axes\<close>

lemma sum_list_map_concat:
  "sum_list (map g (concat xss)) = sum_list (map (\<lambda>xs. sum_list (map g xs)) xss)"
  by (induction xss) simp_all

lemma sum_list_map_nth:
  "sum_list (map g xs) = (\<Sum>i<length xs. g (xs ! i))"
proof -
  have "sum_list (map g xs) = (\<Sum>i = 0..<length (map g xs). map g xs ! i)"
    by (rule sum_list_sum_nth)
  also have "\<dots> = (\<Sum>i<length xs. g (xs ! i))"
    by (simp add: atLeast0LessThan)
  finally show ?thesis .
qed

lemma sum_flat:
  fixes g :: "real \<Rightarrow> 'a::comm_monoid_add"
  assumes "has_shape X n h w ch"
  shows "sum_list (map g (flat X)) = (\<Sum>i<n. \<Sum>j<h. \<Sum>k<w. \<Sum>c<ch. g (X ! i ! j ! k ! c))"
proof -
  have len: "length X = n"
    and li: "\<And>i. i < n \<Longrightarrow> length (X ! i) = h"
    and lj: "\<And>i j. i < n \<Longrightarrow> j < h \<Longrightarrow> length (X ! i ! j) = w"
    and lk: "\<And>i j k. i < n \<Longrightarrow> j < h \<Longrightarrow> k < w \<Longrightarrow> length (X ! i ! j ! k) = ch"
    using assms by (auto simp: has_shape_def list_all_length)
  have "sum_list (map g (flat X)) =
        sum_list (map (\<lambda>img. sum_list (map (\<lambda>row. sum_list (map (\<lambda>px. sum_list (map g px)) row)) img)) X)"
    by (simp add: flat_def sum_list_map_concat)
  also have "\<dots> = (\<Sum>i<n. \<Sum>j<length (X ! i). \<Sum>k<length (X ! i ! j).
                      \<Sum>c<length (X ! i ! j ! k). g (X ! i ! j ! k ! c))"
    by (simp add: sum_list_map_nth len)
  also have "\<dots> = (\<Sum>i<n. \<Sum>j<h. \<Sum>k<w. \<Sum>c<ch. g (X ! i ! j ! k ! c))"
    by (simp add: li lj lk cong: sum.cong_simp)
  finally show ?thesis .
qed

lemma length_flat:
  assumes "has_shape X n h w ch"
  shows "length (flat X) = n * h * w * ch"
proof -
  have "length (flat X) = sum_list (map (\<lambda>x. 1::nat) (flat X))"
    by (simp add: sum_list_triv)
  also have "\<dots> = n * h * w * ch"
    by (simp add: sum_flat [OF assms])
  finally show ?thesis .
qed

text \<open>
  Claim C10. For a training array of shape \<open>(n, h, w, ch)\<close> with at least one component,
  \<open>normalize\<close> uses one scalar mean, the sum over all samples, rows, columns and channels
  divided by \<open>n * h * w * ch\<close>, and one scalar standard deviation, the square root of the
  mean squared deviation over the same four axes. Both returned arrays are the images of
  the given ones under the one function \<open>x \<mapsto> (x - mean) / (std + 1e-7)\<close>, whatever the
  position and the channel of a component: no channel has statistics of its own.
\<close>

theorem normalize_single_scalar_statistics:
  assumes "has_shape X_train n h w ch" and "0 < n * h * w * ch"
  shows "\<exists>mean std.
           mean = (\<Sum>i<n. \<Sum>j<h. \<Sum>k<w. \<Sum>c<ch. X_train ! i ! j ! k ! c) / real (n * h * w * ch)
         \<and> std = sqrt ((\<Sum>i<n. \<Sum>j<h. \<Sum>k<w. \<Sum>c<ch. (X_train ! i ! j ! k ! c - mean)\<^sup>2)
                        / real (n * h * w * ch))
         \<and> normalize_np X_train X_test =
             Some (map4 (\<lambda>x. (x - mean) / (std + 1 / 10 ^ 7)) X_train,
                   map4 (\<lambda>x. (x - mean) / (std + 1 / 10 ^ 7)) X_test)"
proof -
  have len: "length (flat X_train) = n * h * w * ch"
    by (rule length_flat [OF assms(1)])
  then have ne: "flat X_train \<noteq> []"
    using assms(2) by auto
  have s1: "sum_list (flat X_train) = (\<Sum>i<n. \<Sum>j<h. \<Sum>k<w. \<Sum>c<ch. X_train ! i ! j ! k ! c)"
    using sum_flat [OF assms(1), of "\<lambda>x. x"] by simp
  have s2: "sum_list (map (\<lambda>x. (x - m)\<^sup>2) (flat X_train)) =
            (\<Sum>i<n. \<Sum>j<h. \<Sum>k<w. \<Sum>c<ch. (X_train ! i ! j ! k ! c - m)\<^sup>2)" for m
    by (rule sum_flat [OF assms(1)])
  show ?thesis
    unfolding normalize_Some [OF ne] Let_def s2 s1 len by blast
qed

text \<open>
  The witness has two channels whose own means are 0 and 2: normalised channel by channel,
  the component 0 of channel 0 would stay 0, whereas the scalar mean 1 and the scalar
  standard deviation 1 send it to \<open>- 1 / (1 + 1e-7)\<close>.
\<close>

theorem normalize_single_scalar_statistics_witness:
  "has_shape [[[[0, 2]]]] 1 1 1 2 \<and> (0::nat) < 1 * 1 * 1 * 2
   \<and> normalize_np [[[[0, 2]]]] [[[[1, 1]]]] =
       Some ([[[[- 1 / (1 + 1 / 10 ^ 7), 1 / (1 + 1 / 10 ^ 7)]]]], [[[[0, 0]]]])"
proof -
  have sh: "has_shape [[[[0, 2]]]] 1 1 1 2" by (simp add: has_shape_def)
  have pos: "(0::nat) < 1 * 1 * 1 * 2" by simp
  from normalize_single_scalar_statistics [OF sh pos, of "[[[[1, 1]]]]"]
  obtain mean std
    where m: "mean = (\<Sum>i<1::nat. \<Sum>j<1::nat. \<Sum>k<1::nat. \<Sum>c<2::nat.
                        [[[[0, 2::real]]]] ! i ! j ! k ! c) / real (1 * 1 * 1 * 2)"
      and s: "std = sqrt ((\<Sum>i<1::nat. \<Sum>j<1::nat. \<Sum>k<1::nat. \<Sum>c<2::nat.
                        ([[[[0, 2::real]]]] ! i ! j ! k ! c - mean)\<^sup>2) / real (1 * 1 * 1 * 2))"
      and n: "normalize_np [[[[0, 2]]]] [[[[1, 1]]]] =
               Some (map4 (\<lambda>x. (x - mean) / (std + 1 / 10 ^ 7)) [[[[0, 2]]]],
                     map4 (\<lambda>x. (x - mean) / (std + 1 / 10 ^ 7)) [[[[1, 1]]]])"
    by blast
  have two: "{..<2::nat} = {0, 1}" by auto
  have m1: "mean = 1" unfolding m by (simp add: two)
  have s1: "std = 1" unfolding s m1 by (simp add: two)
  show ?thesis
    using sh n unfolding m1 s1 by (simp add: map4_def)
qed

section \<open>Shapes and parameters of the network\<close>

lemmas model_unfold = model_def model_input_def input_shape_def conv_output_length_def
  num_classes_def

lemma shapes_match_summary:
  "output_shapes model (model_input b) = Some (map (\<lambda>(s, p). b # s) summary)"
  by (simp add: model_unfold summary_def)

lemma final_shape: "map_option last (output_shapes model (model_input 1)) = Some [1, 10]"
  by (simp add: model_unfold)

lemma all_convs_same_padding: "conv_paddings model = replicate 13 same"
  by (simp add: model_def numeral_eq_Suc)

lemma same_padding_keeps_size:
  "compute_output_shape (Conv2D f (kh, kw) a same r n) [b, h, w, c] = Some [b, h, w, f]"
  by (simp add: conv_output_length_def)

lemma five_pools: "pool_sizes model = replicate 5 (2, 2)"
  by (simp add: model_def numeral_eq_Suc)

lemma pool_halves:
  "compute_output_shape (MaxPooling2D (2, 2) n) [b, h, w, c] = Some [b, h div 2, w div 2, c]"
  by (simp add: conv_output_length_def nat_div_distrib)

lemma shapes_after_pools:
  "shapes_after is_pool model (model_input 1) =
   Some [[1, 16, 16, 64], [1, 8, 8, 128], [1, 4, 4, 256], [1, 2, 2, 512], [1, 1, 1, 512]]"
  by (simp add: shapes_after_def model_unfold)

lemma shape_after_flatten: "shapes_after is_flatten model (model_input 1) = Some [[1, 512]]"
  by (simp add: shapes_after_def model_unfold)

lemma last_layer: "last model = Dense 10 softmax None ''predictions''"
  by (simp add: model_def num_classes_def)

lemma sum_list_exp_pos: "z \<noteq> [] \<Longrightarrow> 0 < sum_list (map exp (z :: real list))"
proof (induction z)
  case Nil
  then show ?case by simp
next
  case (Cons a z)
  have "0 \<le> sum_list (map exp z)"
    by (rule sum_list_nonneg) auto
  moreover have "0 < exp a" by simp
  ultimately show ?case by (simp add: add_pos_nonneg)
qed

lemma sum_list_divide: "sum_list (map (\<lambda>x. f x / (c::real)) z) = sum_list (map f z) / c"
  by (induction z) (simp_all add: add_divide_distrib)

lemma softmax_sums_to_one:
  assumes "z \<noteq> []"
  shows "sum_list (apply_activation softmax z) = 1"
proof -
  have "sum_list (map exp z) \<noteq> 0"
    using sum_list_exp_pos [OF assms] by simp
  then show ?thesis
    by (simp add: sum_list_divide)
qed

lemma dense_softmax_output:
  assumes "length kernel_cols = 10" and "length bias = 10"
  shows "length (dense_call kernel_cols bias softmax x) = 10
       \<and> sum_list (dense_call kernel_cols bias softmax x) = 1"
proof -
  let ?z = "map2 (+) (map (\<lambda>col. sum_list (map2 (*) x col)) kernel_cols) bias"
  have len: "length ?z = 10" using assms by simp
  then have "?z \<noteq> []" by auto
  then have "sum_list (apply_activation softmax ?z) = 1"
    by (rule softmax_sums_to_one)
  moreover have "length (apply_activation softmax ?z) = 10"
    using len by simp
  ultimately show ?thesis
    unfolding dense_call_def by blast
qed

text \<open>
  Claim C5. On an input of shape \<open>(1, 32, 32, 3)\<close> the layer stack is well-shaped and its
  last output has shape \<open>(1, 10)\<close>; the last layer is the dense layer of 10 units with
  softmax activation, whose output, for any kernel of 10 columns, any bias of 10
  components and any input vector, has 10 components that sum to 1. All 13 convolutions
  pad \<open>same\<close>, which keeps height and width; the 5 pooling layers have a 2 by 2 window
  and halve height and width, giving 16, 8, 4, 2 and 1; flattening gives 512 components.
  The shapes after every layer are those printed by \<^verbatim>\<open>model.summary()\<close>.
\<close>

theorem forward_shape_and_softmax:
  assumes "length kernel_cols = 10" and "length bias = 10"
  shows "length (dense_call kernel_cols bias softmax x) = 10
       \<and> sum_list (dense_call kernel_cols bias softmax x) = 1
       \<and> last model = Dense 10 softmax None ''predictions''
       \<and> map_option last (output_shapes model (model_input 1)) = Some [1, 10]
       \<and> output_shapes model (model_input 1) = Some (map (\<lambda>(s, p). 1 # s) summary)
       \<and> conv_paddings model = replicate 13 same
       \<and> compute_output_shape (Conv2D f (kh, kw) a same r n) [b, h, w, c] = Some [b, h, w, f]
       \<and> pool_sizes model = replicate 5 (2, 2)
       \<and> compute_output_shape (MaxPooling2D (2, 2) n') [b, h, w, c] = Some [b, h div 2, w div 2, c]
       \<and> shapes_after is_pool model (model_input 1) =
           Some [[1, 16, 16, 64], [1, 8, 8, 128], [1, 4, 4, 256], [1, 2, 2, 512], [1, 1, 1, 512]]
       \<and> shapes_after is_flatten model (model_input 1) = Some [[1, 512]]"
proof -
  note d = dense_softmax_output [OF assms, of x]
  show ?thesis
    by (intro conjI d [THEN conjunct1] d [THEN conjunct2] last_layer final_shape
        shapes_match_summary all_convs_same_padding same_padding_keeps_size five_pools
        pool_halves shapes_after_pools shape_after_flatten)
qed

theorem forward_shape_and_softmax_witness:
  "length (replicate 10 [0::real]) = 10 \<and> length (replicate 10 (0::real)) = 10
   \<and> length (dense_call (replicate 10 [0]) (replicate 10 0) softmax [1]) = 10
   \<and> sum_list (dense_call (replicate 10 [0]) (replicate 10 0) softmax [1]) = 1"
proof -
  have k: "length (replicate 10 [0::real]) = 10" by simp
  have b: "length (replicate 10 (0::real)) = 10" by simp
  note t = forward_shape_and_softmax [OF k b, of "[1]"]
  show ?thesis
    by (intro conjI k b t [THEN conjunct1] t [THEN conjunct2, THEN conjunct1])
qed

text \<open>
  Claim C6. Counted from the layer shapes (kernel sizes, input channels, filters, dense
  widths and batch-normalisation widths) in natural-number arithmetic, for any batch size,
  the network has 15,001,418 parameters, of which 9,472 are the moving means and
  variances of the batch normalisations, which are not trained, and 14,991,946 are
  trained. The count of every layer is the one printed by \<^verbatim>\<open>model.summary()\<close>.
\<close>

theorem parameter_counts:
  "total_params model (model_input b) = Some 15001418
   \<and> non_trainable_params model (model_input b) = Some 9472
   \<and> trainable_params model (model_input b) = Some 14991946
   \<and> map_option (map (\<lambda>(t, n). t + n)) (layer_params model (model_input b)) =
       Some (map snd summary)"
proof (intro conjI)
  show "total_params model (model_input b) = Some 15001418"
    by (simp add: total_params_def model_unfold)
  show "non_trainable_params model (model_input b) = Some 9472"
    by (simp add: non_trainable_params_def model_unfold)
  show "trainable_params model (model_input b) = Some 14991946"
    by (simp add: trainable_params_def model_unfold)
  show "map_option (map (\<lambda>(t, n). t + n)) (layer_params model (model_input b)) =
        Some (map snd summary)"
    by (simp add: model_unfold summary_def)
qed

section \<open>The regularisation pattern of the blocks\<close>

text \<open>
  Claim C7, as stated, fails: the second block has L2 weight decay on its second
  convolution too, so ``on the first convolution only'' does not hold of it.
\<close>

theorem l2_first_conv_only_fails_in_block2:
  "\<not> l2_first_conv_only (conv_blocks model ! 1)"
  by (simp add: l2_first_conv_only_def conv_blocks_def model_def)

text \<open>
  Claim C7, amended. The layer sequence has five convolutional blocks. L2 weight decay
  with coefficient 5e-4 is applied to the first convolution only in block 1 and to every
  convolution in blocks 2 to 5; a batch normalisation directly follows every convolution;
  and a dropout, of rate 0.3 in block 1 and 0.4 in blocks 2 to 5, follows the first
  convolution (and its batch normalisation) in blocks 1 and 2 and each of the first two
  convolutions in blocks 3 to 5, the last convolution of a block having none.
\<close>

theorem block_regularization_pattern:
  "map conv_regularizers (conv_blocks model) =
     [[Some (l2 (5 / 10 ^ 4)), None],
      replicate 2 (Some (l2 (5 / 10 ^ 4))),
      replicate 3 (Some (l2 (5 / 10 ^ 4))),
      replicate 3 (Some (l2 (5 / 10 ^ 4))),
      replicate 3 (Some (l2 (5 / 10 ^ 4)))]
   \<and> map bn_after_every_conv (conv_blocks model) = replicate 5 True
   \<and> map conv_dropouts (conv_blocks model) =
     [[Some (3 / 10), None],
      [Some (4 / 10), None],
      [Some (4 / 10), Some (4 / 10), None],
      [Some (4 / 10), Some (4 / 10), None],
      [Some (4 / 10), Some (4 / 10), None]]"
proof (intro conjI)
  show "map conv_regularizers (conv_blocks model) =
     [[Some (l2 (5 / 10 ^ 4)), None],
      replicate 2 (Some (l2 (5 / 10 ^ 4))),
      replicate 3 (Some (l2 (5 / 10 ^ 4))),
      replicate 3 (Some (l2 (5 / 10 ^ 4))),
      replicate 3 (Some (l2 (5 / 10 ^ 4)))]"
    by (simp add: conv_blocks_def model_def weight_decay_def numeral_eq_Suc)
  show "map bn_after_every_conv (conv_blocks model) = replicate 5 True"
    by (simp add: conv_blocks_def model_def numeral_eq_Suc)
  show "map conv_dropouts (conv_blocks model) =
     [[Some (3 / 10), None],
      [Some (4 / 10), None],
      [Some (4 / 10), Some (4 / 10), None],
      [Some (4 / 10), Some (4 / 10), None],
      [Some (4 / 10), Some (4 / 10), None]]"
    by (simp add: conv_blocks_def model_def)
qed

section \<open>The training loop\<close>

lemma run_steps_done:
  "steps_per_epoch args \<le> k \<Longrightarrow> run_steps args compiled k = []"
  by (subst run_steps.simps) simp

lemma run_steps_from:
  assumes "k < steps_per_epoch args"
  shows "run_steps args compiled k =
         replicate (nat (steps_per_epoch args - k)) (train_on_batch (generator args)) @
         [evaluate (validation_data args) (loss compiled # metrics compiled)]"
  using assms
proof (induction args compiled k rule: run_steps.induct)
  case (1 args compiled steps_done)
  show ?case
  proof (cases "steps_done + 1 \<ge> steps_per_epoch args")
    case True
    then have last: "steps_per_epoch args - steps_done = 1"
      using "1.prems" by simp
    have rest: "run_steps args compiled (steps_done + 1) = []"
      using True by (rule run_steps_done)
    show ?thesis
      using "1.prems" True
      by (subst run_steps.simps) (simp add: rest last)
  next
    case False
    then have lt: "steps_done + 1 < steps_per_epoch args" by simp
    have ih: "run_steps args compiled (steps_done + 1) =
              replicate (nat (steps_per_epoch args - (steps_done + 1))) (train_on_batch (generator args)) @
              [evaluate (validation_data args) (loss compiled # metrics compiled)]"
      using "1.IH" "1.prems" lt by simp
    have n: "nat (steps_per_epoch args - steps_done) = Suc (nat (steps_per_epoch args - (steps_done + 1)))"
      using lt by simp
    show ?thesis
      using "1.prems" False
      by (subst run_steps.simps) (simp add: ih n del: run_steps.simps)
  qed
qed

lemma run_epochs_length:
  "length (run_epochs args compiled e) = fit_epochs args - e"
proof (induction args compiled e rule: run_epochs.induct)
  case (1 args compiled epoch)
  show ?case
  proof (cases "epoch < fit_epochs args")
    case True
    then show ?thesis
      using "1.IH" by (subst run_epochs.simps) simp
  next
    case False
    then show ?thesis
      by (subst run_epochs.simps) simp
  qed
qed

lemma run_epochs_nth:
  assumes "e + i < fit_epochs args"
  shows "run_epochs args compiled e ! i =
         map (\<lambda>schedule. set_learning_rate (schedule (int (e + i)))) (callbacks args) @
         run_steps args compiled 0"
  using assms
proof (induction i arbitrary: e)
  case 0
  then show ?case
    by (subst run_epochs.simps) simp
next
  case (Suc i)
  then have a: "e < fit_epochs args" and b: "(e + 1) + i < fit_epochs args"
    by simp_all
  have "run_epochs args compiled e ! Suc i = run_epochs args compiled (e + 1) ! i"
    using a by (subst run_epochs.simps) simp
  also have "\<dots> = map (\<lambda>schedule. set_learning_rate (schedule (int ((e + 1) + i)))) (callbacks args) @
         run_steps args compiled 0"
    by (rule Suc.IH [OF b])
  finally show ?case by simp
qed

lemma steps_value: "steps_per_epoch (fit_generator_call n) = int (n div 128)"
  by (simp add: fit_generator_call_def batch_size_def zdiv_int)

lemma epoch_trace:
  assumes "128 \<le> n" and "e < 250"
  shows "fit_generator (fit_generator_call n) compile_call ! e =
         set_learning_rate (lr_scheduler (int e)) #
         replicate (n div 128) (train_on_batch (flow train_datagen train_split 128)) @
         [evaluate (arrays test_split) [''categorical_crossentropy'', ''accuracy'']]"
proof -
  have pos: "0 < steps_per_epoch (fit_generator_call n)"
    using assms(1) by (simp add: steps_value div_greater_zero_iff)
  have e: "0 + e < fit_epochs (fit_generator_call n)"
    using assms(2) by (simp add: fit_generator_call_def epochs_def)
  have "fit_generator (fit_generator_call n) compile_call ! e =
        map (\<lambda>schedule. set_learning_rate (schedule (int (0 + e)))) (callbacks (fit_generator_call n)) @
        run_steps (fit_generator_call n) compile_call 0"
    unfolding fit_generator_def by (rule run_epochs_nth [OF e])
  also have "run_steps (fit_generator_call n) compile_call 0 =
        replicate (nat (steps_per_epoch (fit_generator_call n) - 0))
          (train_on_batch (generator (fit_generator_call n))) @
        [evaluate (validation_data (fit_generator_call n)) (loss compile_call # metrics compile_call)]"
    by (rule run_steps_from [OF pos])
  finally show ?thesis
    by (simp add: steps_value) (simp add: fit_generator_call_def compile_call_def batch_size_def)
qed

lemma trace_length: "length (fit_generator (fit_generator_call n) compile_call) = 250"
  by (simp add: fit_generator_def run_epochs_length fit_generator_call_def epochs_def)

lemma sgd_value: "sgd = \<lparr> lr = 1 / 10, decay = 1 / 10 ^ 6, momentum = 9 / 10, nesterov = True \<rparr>"
  by (simp add: sgd_def learning_rate_def lr_decay_def)

lemma train_augmented: "augmented (flow train_datagen train_split 128)"
  by (simp add: applies_random_transform_def train_datagen_def)

text \<open>
  Claim C8. The model is compiled with stochastic gradient descent of learning rate 0.1,
  decay coefficient 1e-6, momentum 0.9 and Nesterov acceleration, and the batch size is 128.
  For a training set of \<open>n\<close> images, at least one full batch, the run has 250 epochs, and
  every epoch consists of: the learning rate set to the scheduled rate of the epoch,
  counted from 0; then exactly \<open>n div 128\<close> training steps, each on a batch drawn from the
  generator \<^verbatim>\<open>train_datagen\<close> over the training split in batches of 128; then one
  evaluation of the loss and of the accuracy on the arrays of the evaluation split. That
  is 390 steps for the 50000 images of the notebook. The training generator perturbs its
  images; the evaluation arrays pass through no generator.
\<close>

theorem training_loop:
  assumes "128 \<le> n"
  shows "optimizer compile_call = \<lparr> lr = 1 / 10, decay = 1 / 10 ^ 6, momentum = 9 / 10, nesterov = True \<rparr>
       \<and> batch_size = 128
       \<and> length (fit_generator (fit_generator_call n) compile_call) = 250
       \<and> (\<forall>e<250. fit_generator (fit_generator_call n) compile_call ! e =
             set_learning_rate (lr_scheduler (int e)) #
             replicate (n div 128) (train_on_batch (flow train_datagen train_split 128)) @
             [evaluate (arrays test_split) [''categorical_crossentropy'', ''accuracy'']])
       \<and> hd x_train_shape div 128 = 390
       \<and> augmented (flow train_datagen train_split 128)
       \<and> \<not> augmented (arrays test_split)"
proof -
  have o: "optimizer compile_call = \<lparr> lr = 1 / 10, decay = 1 / 10 ^ 6, momentum = 9 / 10, nesterov = True \<rparr>"
    by (simp add: compile_call_def sgd_value)
  have b: "batch_size = 128" by (simp add: batch_size_def)
  have t: "\<forall>e<250. fit_generator (fit_generator_call n) compile_call ! e =
             set_learning_rate (lr_scheduler (int e)) #
             replicate (n div 128) (train_on_batch (flow train_datagen train_split 128)) @
             [evaluate (arrays test_split) [''categorical_crossentropy'', ''accuracy'']]"
    using epoch_trace [OF assms] by blast
  have h: "hd x_train_shape div 128 = 390" by (simp add: x_train_shape_def)
  have v: "\<not> augmented (arrays test_split)" by simp
  show ?thesis
    by (rule conjI [OF o conjI [OF b conjI [OF trace_length conjI [OF t conjI [OF h conjI [OF train_augmented v]]]]]])
qed

theorem training_loop_witness:
  "(128::nat) \<le> 50000
   \<and> fit_generator (fit_generator_call 50000) compile_call ! 20 =
       set_learning_rate (1 / 20) #
       replicate 390 (train_on_batch (flow train_datagen train_split 128)) @
       [evaluate (arrays test_split) [''categorical_crossentropy'', ''accuracy'']]"
proof -
  have n: "(128::nat) \<le> 50000" by simp
  have l: "lr_scheduler 20 = 1 / 20"
    by (simp add: lr_scheduler_def learning_rate_def lr_drop_def)
  have "(20::nat) < 250" by simp
  with training_loop [OF n] have "fit_generator (fit_generator_call 50000) compile_call ! 20 =
       set_learning_rate (lr_scheduler (int 20)) #
       replicate (50000 div 128) (train_on_batch (flow train_datagen train_split 128)) @
       [evaluate (arrays test_split) [''categorical_crossentropy'', ''accuracy'']]"
    by blast
  then show ?thesis using n l by simp
qed

section \<open>The class labels of the export\<close>



end
